theory Spec2Isabelle
  imports Main
begin

section \<open>Dates: the time values of the platform\<close>

text \<open>
  A JavaScript \<^verbatim>\<open>Date\<close> holds one number, its time value: milliseconds since the epoch.
  A \<open>date\<close> is the time value of a valid date. The functions below are the abstract
  operations of the language standard (section "Date Objects"), under their names there;
  they work on a time value read as local time.
\<close>

type_synonym date = int

definition msPerDay :: int where
  "msPerDay = 86400000"

definition Day :: "date \<Rightarrow> int" where
  "Day t = t div msPerDay"

definition TimeWithinDay :: "date \<Rightarrow> int" where
  "TimeWithinDay t = t mod msPerDay"

definition DaysInYear :: "int \<Rightarrow> int" where
  "DaysInYear y =
     (if y mod 4 \<noteq> 0 then 365
      else if y mod 100 \<noteq> 0 then 366
      else if y mod 400 \<noteq> 0 then 365
      else 366)"

definition DayFromYear :: "int \<Rightarrow> int" where
  "DayFromYear y =
     365 * (y - 1970) + (y - 1969) div 4 - (y - 1901) div 100 + (y - 1601) div 400"

text \<open>
  The standard defines the year of a day as the largest \<open>y\<close> with
  \<open>DayFromYear y \<le> day\<close>. \<open>YearFromDay\<close> computes it: the mean length of a
  year gives a first guess that is off by at most one, and the guess is adjusted.
  Lemma \<open>YearFromDay_bounds\<close> shows that the result is the year the standard means.
\<close>

definition YearFromDay :: "int \<Rightarrow> int" where
  "YearFromDay n =
     (let y = 1970 + (400 * n) div 146097
      in if DayFromYear (y + 1) \<le> n then y + 1
         else if DayFromYear y \<le> n then y
         else y - 1)"

definition YearFromTime :: "date \<Rightarrow> int" where
  "YearFromTime t = YearFromDay (Day t)"

definition InLeapYear :: "date \<Rightarrow> int" where
  "InLeapYear t = (if DaysInYear (YearFromTime t) = 366 then 1 else 0)"

definition DayWithinYear :: "date \<Rightarrow> int" where
  "DayWithinYear t = Day t - DayFromYear (YearFromTime t)"

definition MonthFromTime :: "date \<Rightarrow> int" where
  "MonthFromTime t =
     (let d = DayWithinYear t; l = InLeapYear t
      in if d < 31 then 0
         else if d < 59 + l then 1
         else if d < 90 + l then 2
         else if d < 120 + l then 3
         else if d < 151 + l then 4
         else if d < 181 + l then 5
         else if d < 212 + l then 6
         else if d < 243 + l then 7
         else if d < 273 + l then 8
         else if d < 304 + l then 9
         else if d < 334 + l then 10
         else 11)"

definition DateFromTime :: "date \<Rightarrow> int" where
  "DateFromTime t =
     (let d = DayWithinYear t; l = InLeapYear t; m = MonthFromTime t
      in if m = 0 then d + 1
         else if m = 1 then d - 30
         else if m = 2 then d - 58 - l
         else if m = 3 then d - 89 - l
         else if m = 4 then d - 119 - l
         else if m = 5 then d - 150 - l
         else if m = 6 then d - 180 - l
         else if m = 7 then d - 211 - l
         else if m = 8 then d - 242 - l
         else if m = 9 then d - 272 - l
         else if m = 10 then d - 303 - l
         else d - 333 - l)"

definition WeekDay :: "date \<Rightarrow> int" where
  "WeekDay t = (Day t + 4) mod 7"

definition MakeTime :: "int \<Rightarrow> int \<Rightarrow> int \<Rightarrow> int \<Rightarrow> int" where
  "MakeTime hour minute sec ms = hour * 3600000 + minute * 60000 + sec * 1000 + ms"

text \<open>
  \<open>MonthStart l mn\<close> is the day within the year on which month \<open>mn\<close> (0 to 11) begins,
  \<open>l\<close> being 1 in a leap year: the lower bounds of the table of \<open>MonthFromTime\<close>.
\<close>

definition MonthStart :: "int \<Rightarrow> int \<Rightarrow> int" where
  "MonthStart l mn =
     (if mn = 0 then 0
      else if mn = 1 then 31
      else if mn = 2 then 59 + l
      else if mn = 3 then 90 + l
      else if mn = 4 then 120 + l
      else if mn = 5 then 151 + l
      else if mn = 6 then 181 + l
      else if mn = 7 then 212 + l
      else if mn = 8 then 243 + l
      else if mn = 9 then 273 + l
      else if mn = 10 then 304 + l
      else 334 + l)"


text \<open>
  \<open>MakeDay\<close>: months outside 0 to 11 carry into the year, and the day of the month
  counts on from the first of the month, below 1 and beyond the month's end.
\<close>

definition MakeDay :: "int \<Rightarrow> int \<Rightarrow> int \<Rightarrow> int" where
  "MakeDay year month dt =
     (let ym = year + month div 12;
          mn = month mod 12;
          l = (if DaysInYear ym = 366 then 1 else 0)
      in DayFromYear ym + MonthStart l mn + dt - 1)"

definition MakeDate :: "int \<Rightarrow> int \<Rightarrow> date" where
  "MakeDate day time = day * msPerDay + time"

subsection \<open>The methods of a date, in the zone at offset zero\<close>





definition setHours :: "date \<Rightarrow> int \<Rightarrow> int \<Rightarrow> int \<Rightarrow> int \<Rightarrow> date" where
  "setHours t hour minute sec ms = MakeDate (Day t) (MakeTime hour minute sec ms)"




subsection \<open>Facts about the calendar\<close>


























section \<open>The functions of date-fns that the components call\<close>

text \<open>
  Each function is written after the library's implementation: a copy of the argument
  changed by the methods of \<^verbatim>\<open>Date\<close>.
\<close>

definition startOfDay :: "date \<Rightarrow> date" where
  "startOfDay date = setHours date 0 0 0 0"


definition isBefore :: "date \<Rightarrow> date \<Rightarrow> bool" where
  "isBefore date dateToCompare \<longleftrightarrow> date < dateToCompare"

definition isEqual :: "date \<Rightarrow> date \<Rightarrow> bool" where
  "isEqual leftDate rightDate \<longleftrightarrow> leftDate = rightDate"

definition isSameDay :: "date \<Rightarrow> date \<Rightarrow> bool" where
  "isSameDay laterDate earlierDate \<longleftrightarrow> startOfDay laterDate = startOfDay earlierDate"

text \<open>
  \<^verbatim>\<open>isWithinInterval\<close> as of date-fns 3, which sorts the two ends of the interval
  before it compares. (Earlier versions raise \<^verbatim>\<open>RangeError\<close> when the start is after the
  end; on an interval whose start is not after its end all versions agree.)
\<close>

definition isWithinInterval :: "date \<Rightarrow> date \<times> date \<Rightarrow> bool" where
  "isWithinInterval date interval =
     (let startTime = min (fst interval) (snd interval);
          endTime = max (fst interval) (snd interval)
      in startTime \<le> date \<and> date \<le> endTime)"





section \<open>Zones and the range of time values\<close>

text \<open>
  The methods of \<^verbatim>\<open>Date\<close> as the platform runs them. A zone gives the offset of local
  time from UTC, in milliseconds: \<open>offsetAtUTC\<close> at an instant, \<open>offsetAtLocal\<close> for a
  local time (for a local time that a change of offset skips, the offset before the
  change). A setter builds the new local time, takes it back to UTC and clips it: a time
  value further than \<open>maxTime\<close> from the epoch is no date. \<open>None\<close> is
  \<^verbatim>\<open>Invalid Date\<close>.
\<close>

record zone =
  offsetAtUTC :: "int \<Rightarrow> int"
  offsetAtLocal :: "int \<Rightarrow> int"

text \<open>A zone whose offset is always \<open>c\<close>.\<close>

definition fixedZone :: "int \<Rightarrow> zone" where
  "fixedZone c = \<lparr>offsetAtUTC = (\<lambda>t. c), offsetAtLocal = (\<lambda>t. c)\<rparr>"


definition LocalTime :: "zone \<Rightarrow> date \<Rightarrow> int" where
  "LocalTime z t = t + offsetAtUTC z t"

definition UTC :: "zone \<Rightarrow> int \<Rightarrow> int" where
  "UTC z t = t - offsetAtLocal z t"

definition maxTime :: int where
  "maxTime = 8640000000000000"

definition TimeClip :: "int \<Rightarrow> date option" where
  "TimeClip time = (if \<bar>time\<bar> > maxTime then None else Some time)"

definition getFullYear_tz :: "zone \<Rightarrow> date \<Rightarrow> int" where
  "getFullYear_tz z t = YearFromTime (LocalTime z t)"

definition getMonth_tz :: "zone \<Rightarrow> date \<Rightarrow> int" where
  "getMonth_tz z t = MonthFromTime (LocalTime z t)"

definition getDate_tz :: "zone \<Rightarrow> date \<Rightarrow> int" where
  "getDate_tz z t = DateFromTime (LocalTime z t)"

definition getDay_tz :: "zone \<Rightarrow> date \<Rightarrow> int" where
  "getDay_tz z t = WeekDay (LocalTime z t)"

definition setDate_tz :: "zone \<Rightarrow> date \<Rightarrow> int \<Rightarrow> date option" where
  "setDate_tz z tv dt =
     (let t = LocalTime z tv;
          newDate = MakeDate (MakeDay (YearFromTime t) (MonthFromTime t) dt) (TimeWithinDay t)
      in TimeClip (UTC z newDate))"

definition setHours_tz :: "zone \<Rightarrow> date \<Rightarrow> int \<Rightarrow> int \<Rightarrow> int \<Rightarrow> int \<Rightarrow> date option" where
  "setHours_tz z tv hour minute sec ms =
     (let t = LocalTime z tv;
          date = MakeDate (Day t) (MakeTime hour minute sec ms)
      in TimeClip (UTC z date))"

definition setFullYear3_tz :: "zone \<Rightarrow> date \<Rightarrow> int \<Rightarrow> int \<Rightarrow> int \<Rightarrow> date option" where
  "setFullYear3_tz z tv year month dt =
     (let t = LocalTime z tv;
          newDate = MakeDate (MakeDay year month dt) (TimeWithinDay t)
      in TimeClip (UTC z newDate))"

subsection \<open>The functions of date-fns that the grid calls\<close>


definition startOfMonth_tz :: "zone \<Rightarrow> date option \<Rightarrow> date option" where
  "startOfMonth_tz z date =
     Option.bind (Option.bind date (\<lambda>d. setDate_tz z d 1)) (\<lambda>d. setHours_tz z d 0 0 0 0)"

definition endOfMonth_tz :: "zone \<Rightarrow> date option \<Rightarrow> date option" where
  "endOfMonth_tz z date =
     Option.bind
       (Option.bind date
          (\<lambda>d. let month = getMonth_tz z d
                in setFullYear3_tz z d (getFullYear_tz z d) (month + 1) 0))
       (\<lambda>d. setHours_tz z d 23 59 59 999)"

definition startOfWeek_tz :: "zone \<Rightarrow> date option \<Rightarrow> int \<Rightarrow> date option" where
  "startOfWeek_tz z date weekStartsOn =
     Option.bind
       (Option.bind date
          (\<lambda>d. let day = getDay_tz z d;
                    diff = (if day < weekStartsOn then 7 else 0) + day - weekStartsOn
                in setDate_tz z d (getDate_tz z d - diff)))
       (\<lambda>d. setHours_tz z d 0 0 0 0)"

definition endOfWeek_tz :: "zone \<Rightarrow> date option \<Rightarrow> int \<Rightarrow> date option" where
  "endOfWeek_tz z date weekStartsOn =
     Option.bind
       (Option.bind date
          (\<lambda>d. let day = getDay_tz z d;
                    diff = (if day < weekStartsOn then - 7 else 0) + 6 - (day - weekStartsOn)
                in setDate_tz z d (getDate_tz z d + diff)))
       (\<lambda>d. setHours_tz z d 23 59 59 999)"

definition addDays_tz :: "zone \<Rightarrow> date option \<Rightarrow> int \<Rightarrow> date option" where
  "addDays_tz z date amount =
     (if amount = 0 then date
      else Option.bind date (\<lambda>d. setDate_tz z d (getDate_tz z d + amount)))"

text \<open>
  \<^verbatim>\<open>add(date, { days })\<close>: with no months, years or clock fields only the days are
  added, and the result is a new date made from the time value found.
\<close>

definition add_days_tz :: "zone \<Rightarrow> date option \<Rightarrow> int \<Rightarrow> date option" where
  "add_days_tz z date days =
     (let dateWithDays = (if days \<noteq> 0 then addDays_tz z date days else date)
      in Option.bind dateWithDays (\<lambda>d. TimeClip (d + 0)))"


section \<open>The calendar grid\<close>

text \<open>
  \<^verbatim>\<open>monthMatrix\<close> is the same function in the single-date picker and in the range picker.
  Its loop appends the current day while it is not after the end; a comparison with an
  invalid date is false. The loop need not end in every zone, so its result is an option:
  \<open>None\<close> when it runs forever.
\<close>

partial_function (option) monthMatrix_loop ::
  "zone \<Rightarrow> date option \<Rightarrow> date option \<Rightarrow> date list \<Rightarrow> date list option" where
  "monthMatrix_loop z cur end' days =
     (case (cur, end') of
        (Some c, Some e) \<Rightarrow>
          (if c \<le> e then monthMatrix_loop z (add_days_tz z cur 1) end' (days @ [c])
           else Some days)
      | _ \<Rightarrow> Some days)"

declare monthMatrix_loop.simps [code]

definition monthMatrix :: "zone \<Rightarrow> date \<Rightarrow> date list option" where
  "monthMatrix z anchor =
     (let start = startOfWeek_tz z (startOfMonth_tz z (Some anchor)) 0;
          end' = endOfWeek_tz z (endOfMonth_tz z (Some anchor)) 0
      in monthMatrix_loop z start end' [])"

section \<open>The range picker\<close>

text \<open>
  The state of \<^verbatim>\<open>DatePickerRange\<close>: its four state variables, the property
  \<^verbatim>\<open>value\<close> that the parent passes (\<open>value_prop\<close>), and the arguments of the calls of
  \<^verbatim>\<open>onChange\<close> so far, oldest first. The parent passes \<^verbatim>\<open>value\<close> itself and replaces
  it only in the step \<open>valueChanged\<close>. A null endpoint is \<open>None\<close>.
\<close>

type_synonym range = "date option \<times> date option"

record range_picker =
  value_prop :: range
  open_st :: bool
  panelMonth :: date
  draftRange :: range
  hoverDate :: "date option"
  onChange_calls :: "range list"

text \<open>Mounting: the initial values of the state variables; \<open>now\<close> is \<^verbatim>\<open>new Date()\<close>.\<close>

definition mount :: "range \<Rightarrow> date \<Rightarrow> range_picker" where
  "mount v now =
     \<lparr>value_prop = v, open_st = False,
      panelMonth = (case fst v of Some d \<Rightarrow> d | None \<Rightarrow> now),
      draftRange = v, hoverDate = None, onChange_calls = []\<rparr>"

text \<open>The effect that runs when the parent passes another \<^verbatim>\<open>value\<close>.\<close>

definition valueChanged :: "range \<Rightarrow> range_picker \<Rightarrow> range_picker" where
  "valueChanged v st =
     st\<lparr>value_prop := v, draftRange := v, hoverDate := None,
        panelMonth := (case fst v of Some d \<Rightarrow> d | None \<Rightarrow> panelMonth st)\<rparr>"

text \<open>
  The listener for a mouse press anywhere in the document. \<open>outside\<close> says that the
  container is mounted and does not contain the target of the event.
\<close>

definition handleOutsideClick :: "bool \<Rightarrow> range_picker \<Rightarrow> range_picker" where
  "handleOutsideClick outside st =
     (if open_st st \<and> outside
      then st\<lparr>open_st := False, draftRange := value_prop st, hoverDate := None\<rparr>
      else st)"

definition pickDay :: "date \<Rightarrow> range_picker \<Rightarrow> range_picker" where
  "pickDay date st =
     (case draftRange st of
        (None, _) \<Rightarrow> st\<lparr>draftRange := (Some date, None), hoverDate := None\<rparr>
      | (Some start, Some end') \<Rightarrow> st\<lparr>draftRange := (Some date, None), hoverDate := None\<rparr>
      | (Some start, None) \<Rightarrow>
          (let nextRange = (if isBefore date start then (Some date, Some start)
                            else (Some start, Some date))
           in st\<lparr>draftRange := nextRange,
                 onChange_calls := onChange_calls st @ [nextRange],
                 open_st := False, hoverDate := None\<rparr>))"

definition applyToday :: "date \<Rightarrow> range_picker \<Rightarrow> range_picker" where
  "applyToday today st =
     (let rng = (Some today, Some today)
      in st\<lparr>draftRange := rng, onChange_calls := onChange_calls st @ [rng],
            panelMonth := today, open_st := False, hoverDate := None\<rparr>)"

text \<open>The clear button is rendered only while an endpoint of the draft range is shown.\<close>

definition clearRange :: "range_picker \<Rightarrow> range_picker" where
  "clearRange st =
     (if fst (draftRange st) \<noteq> None \<or> snd (draftRange st) \<noteq> None
      then st\<lparr>draftRange := (None, None), hoverDate := None,
              onChange_calls := onChange_calls st @ [(None, None)]\<rparr>
      else st)"

definition openPanel :: "range_picker \<Rightarrow> range_picker" where
  "openPanel st = st\<lparr>open_st := True, hoverDate := None\<rparr>"

text \<open>A click on the input.\<close>

definition toggle :: "range_picker \<Rightarrow> range_picker" where
  "toggle st = (if open_st st then st\<lparr>open_st := False\<rparr> else openPanel st)"

text \<open>The pointer enters and leaves the cell of day \<open>d\<close>.\<close>

definition mouseEnter :: "date \<Rightarrow> range_picker \<Rightarrow> range_picker" where
  "mouseEnter d st =
     (if fst (draftRange st) \<noteq> None \<and> snd (draftRange st) = None
      then st\<lparr>hoverDate := Some d\<rparr> else st)"

definition mouseLeave :: "range_picker \<Rightarrow> range_picker" where
  "mouseLeave st =
     (if fst (draftRange st) \<noteq> None \<and> snd (draftRange st) = None
      then st\<lparr>hoverDate := None\<rparr> else st)"

text \<open>
  The events of the component. The cells of the grid and the Today footer exist only
  while the panel is open.
\<close>

datatype event =
    PickDay date
  | ApplyToday date
  | Clear
  | OutsideClick
  | ValueChanged range
  | Toggle
  | MouseEnter date
  | MouseLeave

fun step :: "range_picker \<Rightarrow> event \<Rightarrow> range_picker" where
  "step st (PickDay d) = (if open_st st then pickDay d st else st)"
| "step st (ApplyToday today) = (if open_st st then applyToday today st else st)"
| "step st Clear = clearRange st"
| "step st OutsideClick = handleOutsideClick True st"
| "step st (ValueChanged v) = valueChanged v st"
| "step st Toggle = toggle st"
| "step st (MouseEnter d) = (if open_st st then mouseEnter d st else st)"
| "step st MouseLeave = (if open_st st then mouseLeave st else st)"

definition run :: "range_picker \<Rightarrow> event list \<Rightarrow> range_picker" where
  "run st evs = foldl step st evs"

text \<open>
  What follows an event is a render and its effects. When the parent passes \<^verbatim>\<open>value\<close>
  and holds it (\<open>held\<close>), the array is the same at the next render and the effect on
  \<^verbatim>\<open>value\<close> does not run. When the parent omits the property, the default
  \<^verbatim>\<open>[null, null]\<close> of the parameter is another array at every render, and the effect
  runs after every render.
\<close>

definition rendered :: "bool \<Rightarrow> range_picker \<Rightarrow> range_picker" where
  "rendered held st = (if held then st else valueChanged (None, None) st)"

definition run_rendered :: "bool \<Rightarrow> range_picker \<Rightarrow> event list \<Rightarrow> range_picker" where
  "run_rendered held st evs = foldl (\<lambda>s ev. rendered held (step s ev)) st evs"

subsection \<open>What \<^verbatim>\<open>renderGrid\<close> computes for a cell\<close>

definition previewInterval :: "range \<Rightarrow> date option \<Rightarrow> (date \<times> date) option" where
  "previewInterval draft hover =
     (case draft of
        (Some start, Some end') \<Rightarrow>
          Some (if isBefore start end' \<or> isSameDay start end' then (start, end')
                else (end', start))
      | (Some start, None) \<Rightarrow>
          (case hover of
             Some h \<Rightarrow> Some (if isBefore h start then (h, start) else (start, h))
           | None \<Rightarrow> None)
      | (None, _) \<Rightarrow> None)"

definition isStart :: "range \<Rightarrow> date \<Rightarrow> bool" where
  "isStart draft d = (case fst draft of Some start \<Rightarrow> isSameDay d start | None \<Rightarrow> False)"

definition isEnd :: "range \<Rightarrow> date \<Rightarrow> bool" where
  "isEnd draft d = (case snd draft of Some end' \<Rightarrow> isSameDay d end' | None \<Rightarrow> False)"

definition isBetween :: "range \<Rightarrow> date option \<Rightarrow> date \<Rightarrow> bool" where
  "isBetween draft hover d =
     (case previewInterval draft hover of
        Some interval \<Rightarrow> (if fst draft \<noteq> None then isWithinInterval d interval else False)
      | None \<Rightarrow> False)"

definition isRange :: "range \<Rightarrow> date option \<Rightarrow> date \<Rightarrow> bool" where
  "isRange draft hover d \<longleftrightarrow> isBetween draft hover d \<and> \<not> isStart draft d \<and> \<not> isEnd draft d"

section \<open>The single-date picker\<close>

text \<open>
  \<^verbatim>\<open>DatePickerBase\<close> keeps no selection of its own: the selected date is the property
  \<^verbatim>\<open>value\<close>. A cell \<open>d\<close> of the grid is drawn as selected when \<open>isSelected\<close> holds, and
  the Today footer passes the current instant to \<^verbatim>\<open>onChange\<close>.
\<close>

definition isSelected :: "date option \<Rightarrow> date \<Rightarrow> bool" where
  "isSelected v d = (case v of Some x \<Rightarrow> isEqual d x | None \<Rightarrow> False)"

definition isToday :: "date \<Rightarrow> date \<Rightarrow> bool" where
  "isToday today d = isSameDay d today"

definition pick :: "date \<Rightarrow> date option" where
  "pick d = Some d"

definition todayClick :: "date \<Rightarrow> date option" where
  "todayClick n = Some n"

section \<open>The month picker\<close>

record month_picker =
  month_value :: "date option"
  month_open :: bool
  panelYear :: int
  hovering :: "nat option"
  month_calls :: "date option list"




section \<open>Notions of the specification\<close>

text \<open>
  The states of a selection \<open>(start, end)\<close>: empty, pending (a start and no end) and
  complete (both endpoints). \<open>ordered\<close> is the invariant of a range: when both endpoints
  are present, the start is not after the end. \<open>startWhenEnd\<close> says that an end comes
  with a start.
\<close>

definition isEmpty :: "range \<Rightarrow> bool" where
  "isEmpty r \<longleftrightarrow> r = (None, None)"

definition isPending :: "range \<Rightarrow> bool" where
  "isPending r \<longleftrightarrow> fst r \<noteq> None \<and> snd r = None"

definition bothPresent :: "range \<Rightarrow> bool" where
  "bothPresent r \<longleftrightarrow> fst r \<noteq> None \<and> snd r \<noteq> None"

definition ordered :: "range \<Rightarrow> bool" where
  "ordered r = (case r of (Some s, Some e) \<Rightarrow> s \<le> e | _ \<Rightarrow> True)"

definition startWhenEnd :: "range \<Rightarrow> bool" where
  "startWhenEnd r \<longleftrightarrow> (snd r \<noteq> None \<longrightarrow> fst r \<noteq> None)"

text \<open>\<open>days_from d n\<close>: \<open>n\<close> dates from \<open>d\<close> on, each one day after the one before.\<close>

definition days_from :: "date \<Rightarrow> nat \<Rightarrow> date list" where
  "days_from d n = map (\<lambda>i. d + int i * msPerDay) [0..<n]"





section \<open>Lemmas\<close>

lemma startOfDay_eq: "startOfDay t = Day t * msPerDay"
  by (simp add: startOfDay_def setHours_def MakeDate_def MakeTime_def)

lemma Day_shift: "Day (t + k * msPerDay) = Day t + k"
  by (simp add: Day_def msPerDay_def)

lemma Day_shift_back: "Day (t - k * msPerDay) = Day t - k"
  using Day_shift [of t "- k"] by simp

lemma Day_aligned: "Day (n * msPerDay) = n"
  by (simp add: Day_def msPerDay_def)










lemma Day_last: "Day (n * msPerDay + (msPerDay - 1)) = n"
  by (simp add: Day_def msPerDay_def)




















lemma pickDay_restart:
  "isEmpty (draftRange st) \<or> bothPresent (draftRange st) \<Longrightarrow>
   pickDay d st = st\<lparr>draftRange := (Some d, None), hoverDate := None\<rparr>"
  by (cases "draftRange st"; cases "fst (draftRange st)"; cases "snd (draftRange st)")
     (auto simp: pickDay_def isEmpty_def bothPresent_def)

lemma pickDay_complete:
  "draftRange st = (Some s, None) \<Longrightarrow>
   pickDay d st = st\<lparr>draftRange := (Some (min s d), Some (max s d)),
                      onChange_calls := onChange_calls st @ [(Some (min s d), Some (max s d))],
                      open_st := False, hoverDate := None\<rparr>"
  by (auto simp: pickDay_def isBefore_def Let_def min_def max_def)

lemma isSameDay_Day: "isSameDay a b \<longleftrightarrow> Day a = Day b"
  by (simp add: isSameDay_def startOfDay_eq msPerDay_def)

lemma Day_mono: "a \<le> b \<Longrightarrow> Day a \<le> Day b"
  by (simp add: Day_def msPerDay_def zdiv_mono1)

lemma Day_less: "Day a < Day b \<Longrightarrow> a < b"
  using Day_mono [of b a] by linarith

lemma previewInterval_fst: "previewInterval draft hover = Some iv \<Longrightarrow> fst draft \<noteq> None"
  by (auto simp: previewInterval_def split: prod.splits option.splits)

lemma step_startWhenEnd:
  assumes "startWhenEnd (value_prop st)" and "startWhenEnd (draftRange st)"
    and "\<And>v. ev = ValueChanged v \<Longrightarrow> startWhenEnd v"
  shows "startWhenEnd (value_prop (step st ev)) \<and> startWhenEnd (draftRange (step st ev))"
proof (cases ev)
  case (PickDay d)
  then show ?thesis using assms(1,2)
    by (cases "fst (draftRange st)"; cases "snd (draftRange st)"; cases "draftRange st")
       (auto simp: pickDay_def startWhenEnd_def Let_def)
next
  case (ApplyToday t)
  then show ?thesis using assms(1,2) by (simp add: applyToday_def startWhenEnd_def Let_def)
next
  case Clear
  then show ?thesis using assms(1,2) by (simp add: clearRange_def startWhenEnd_def)
next
  case OutsideClick
  then show ?thesis using assms(1,2) by (simp add: handleOutsideClick_def)
next
  case (ValueChanged v)
  then show ?thesis using assms(3) by (simp add: valueChanged_def)
next
  case Toggle
  then show ?thesis using assms(1,2) by (simp add: toggle_def openPanel_def)
next
  case (MouseEnter d)
  then show ?thesis using assms(1,2) by (simp add: mouseEnter_def)
next
  case MouseLeave
  then show ?thesis using assms(1,2) by (simp add: mouseLeave_def)
qed

lemma run_startWhenEnd:
  assumes "\<forall>v. ValueChanged v \<in> set evs \<longrightarrow> startWhenEnd v"
    and "startWhenEnd (value_prop st)" and "startWhenEnd (draftRange st)"
  shows "startWhenEnd (value_prop (run st evs)) \<and> startWhenEnd (draftRange (run st evs))"
  using assms
proof (induction evs arbitrary: st)
  case Nil
  then show ?case by (simp add: run_def)
next
  case (Cons ev evs)
  have s: "startWhenEnd (value_prop (step st ev)) \<and> startWhenEnd (draftRange (step st ev))"
    using Cons.prems by (intro step_startWhenEnd) auto
  have "run st (ev # evs) = run (step st ev) evs" by (simp add: run_def)
  then show ?case using Cons.IH [of "step st ev"] Cons.prems(1) s by simp
qed

lemma TimeClip_Some: "TimeClip x = Some y \<longleftrightarrow> y = x \<and> - maxTime \<le> x \<and> x \<le> maxTime"
  by (auto simp: TimeClip_def maxTime_def)

lemma TimeClip_between:
  assumes "TimeClip lo = Some lo" and "TimeClip hi = Some hi" and "lo \<le> x" and "x \<le> hi"
  shows "TimeClip x = Some x"
  using assms by (simp add: TimeClip_Some)







lemma Day_local_aligned: "Day (n * msPerDay - c + c) = n"
  by (simp add: Day_aligned)

lemma Day_local_last: "Day (n * msPerDay + (msPerDay - 1) - c + c) = n"
  by (simp add: Day_last)



















lemma run_rendered_held: "run_rendered True st evs = run st evs"
  by (simp add: run_rendered_def run_def rendered_def)

section \<open>The claims\<close>

text \<open>
  Claim C1, at the input where the range picker departs from it. The component is mounted
  with no \<^verbatim>\<open>value\<close>; the input is clicked, then 10 January 2024, then 5 January 2024.
  The effect on \<^verbatim>\<open>value\<close> runs after every render and empties the draft range, so the
  second click starts over like the first: no range is committed, nothing is passed to
  \<^verbatim>\<open>onChange\<close> and the panel stays open. With the same clicks and the value held by
  the parent the range from 5 to 10 January is committed.
\<close>

theorem two_clicks_without_value:
  "draftRange (run_rendered False (mount (None, None) 0)
      [Toggle, PickDay 1704844800000, PickDay 1704412800000]) = (None, None)
   \<and> onChange_calls (run_rendered False (mount (None, None) 0)
      [Toggle, PickDay 1704844800000, PickDay 1704412800000]) = []
   \<and> open_st (run_rendered False (mount (None, None) 0)
      [Toggle, PickDay 1704844800000, PickDay 1704412800000])
   \<and> draftRange (run_rendered True (mount (None, None) 0)
      [Toggle, PickDay 1704844800000, PickDay 1704412800000])
       = (Some 1704412800000, Some 1704844800000)"
  by (simp add: run_rendered_def rendered_def mount_def toggle_def openPanel_def pickDay_def
      valueChanged_def isBefore_def Let_def)

text \<open>
  Claim C1 where the parent holds the value. Two clicks on days \<open>d1\<close> then \<open>d2\<close>, made
  on the open panel from the empty state or from a complete range, commit the range
  \<open>(min d1 d2, max d1 d2)\<close> whatever the order of the clicks: it becomes the draft range,
  it is the one argument passed to \<^verbatim>\<open>onChange\<close>, and the panel is closed.
\<close>

theorem two_clicks_commit_ordered_range:
  assumes "open_st st"
    and "isEmpty (draftRange st) \<or> bothPresent (draftRange st)"
  shows "draftRange (run_rendered True st [PickDay d1, PickDay d2])
           = (Some (min d1 d2), Some (max d1 d2))
       \<and> onChange_calls (run_rendered True st [PickDay d1, PickDay d2]) =
            onChange_calls st @ [(Some (min d1 d2), Some (max d1 d2))]
       \<and> \<not> open_st (run_rendered True st [PickDay d1, PickDay d2])
       \<and> draftRange (run_rendered True st [PickDay d2, PickDay d1])
           = draftRange (run_rendered True st [PickDay d1, PickDay d2])"
proof -
  have first: "\<And>d. step st (PickDay d) = st\<lparr>draftRange := (Some d, None), hoverDate := None\<rparr>"
    using assms by (simp add: pickDay_restart)
  have second: "\<And>a b. step (st\<lparr>draftRange := (Some a, None), hoverDate := None\<rparr>) (PickDay b) =
      st\<lparr>draftRange := (Some (min a b), Some (max a b)),
         onChange_calls := onChange_calls st @ [(Some (min a b), Some (max a b))],
         open_st := False, hoverDate := None\<rparr>"
    using assms(1) by (simp add: pickDay_complete)
  have both: "\<And>a b. run st [PickDay a, PickDay b] =
      st\<lparr>draftRange := (Some (min a b), Some (max a b)),
         onChange_calls := onChange_calls st @ [(Some (min a b), Some (max a b))],
         open_st := False, hoverDate := None\<rparr>"
    unfolding run_def foldl.simps first second ..
  show ?thesis
    unfolding run_rendered_held both by (simp add: min.commute max.commute)
qed

theorem two_clicks_witness:
  "open_st (toggle (mount (None, None) 0))
   \<and> isEmpty (draftRange (toggle (mount (None, None) 0)))
   \<and> draftRange (run_rendered True (toggle (mount (None, None) 0))
        [PickDay 1704844800000, PickDay 1704412800000])
       = (Some 1704412800000, Some 1704844800000)
   \<and> onChange_calls (run_rendered True (toggle (mount (None, None) 0))
        [PickDay 1704844800000, PickDay 1704412800000])
       = [(Some 1704412800000, Some 1704844800000)]"
  using two_clicks_commit_ordered_range [of "toggle (mount (None, None) 0)" 1704844800000 1704412800000]
  by (simp add: toggle_def mount_def openPanel_def isEmpty_def)




text \<open>
  Claim C3. A click on day \<open>d\<close> while the selection is empty or complete leaves the
  selection pending with \<open>d\<close> as its start and no end: the range there was is dropped,
  so a third click after a complete range starts a new selection. Nothing is passed to
  \<^verbatim>\<open>onChange\<close> and the panel stays open.
\<close>

theorem click_restarts_selection:
  assumes "open_st st"
    and "isEmpty (draftRange st) \<or> bothPresent (draftRange st)"
  shows "draftRange (step st (PickDay d)) = (Some d, None)
       \<and> isPending (draftRange (step st (PickDay d)))
       \<and> hoverDate (step st (PickDay d)) = None
       \<and> onChange_calls (step st (PickDay d)) = onChange_calls st
       \<and> open_st (step st (PickDay d))"
  using assms by (simp add: pickDay_restart isPending_def)

theorem click_restarts_witness:
  "open_st (toggle (mount (Some 1704412800000, Some 1704844800000) 0))
   \<and> bothPresent (draftRange (toggle (mount (Some 1704412800000, Some 1704844800000) 0)))
   \<and> draftRange (step (toggle (mount (Some 1704412800000, Some 1704844800000) 0))
        (PickDay 1705276800000)) = (Some 1705276800000, None)"
  using click_restarts_selection
    [of "toggle (mount (Some 1704412800000, Some 1704844800000) 0)" 1705276800000]
  by (simp add: toggle_def mount_def openPanel_def bothPresent_def)

text \<open>
  Claim C4. While the selection is pending and a day is hovered, the interval of the
  preview is \<open>(min start hover, max start hover)\<close>. There is no interval while the
  selection is pending with no hovered day or empty. While it is complete (both endpoints,
  the start not after the end) the highlighted interval is \<open>(start, end)\<close> whatever is
  hovered.
\<close>

theorem preview_interval_by_state:
  "previewInterval (Some s, None) (Some h) = Some (min s h, max s h)
   \<and> previewInterval (Some s, None) None = None
   \<and> previewInterval (None, None) hover = None
   \<and> (s \<le> e \<longrightarrow> previewInterval (Some s, Some e) hover = Some (s, e))"
  by (auto simp: previewInterval_def isBefore_def min_def max_def isSameDay_def)

theorem preview_interval_witness:
  "(1704412800000::int) \<le> 1704844800000
   \<and> previewInterval (Some 1704412800000, Some 1704844800000) (Some 1705276800000)
       = Some (1704412800000, 1704844800000)"
  using preview_interval_by_state
    [where s = 1704412800000 and e = 1704844800000 and hover = "Some 1705276800000"]
  by simp

text \<open>
  Claim C5. For every cell \<open>d\<close>, \<open>isRange\<close> (the middle of a range) is \<open>isBetween\<close>
  and neither \<open>isStart\<close> nor \<open>isEnd\<close>, where \<open>isBetween\<close> is the test, both bounds
  included, against the active interval: the confirmed range \<open>(start, end)\<close> while the
  selection is complete, the preview \<open>(min start hover, max start hover)\<close> while it is
  pending with a hovered day, and no interval otherwise. So \<open>isRange\<close> is false for a
  cell on the day of the start or of the end, and true for a cell on a day strictly
  between the two, or strictly between the start and the hovered day of a preview.
\<close>

theorem range_middle_classification:
  "isRange draft hover d = (isBetween draft hover d \<and> \<not> isStart draft d \<and> \<not> isEnd draft d)
   \<and> isBetween draft hover d =
        (\<exists>lo hi. previewInterval draft hover = Some (lo, hi) \<and> min lo hi \<le> d \<and> d \<le> max lo hi)
   \<and> (s \<le> e \<longrightarrow> isBetween (Some s, Some e) hover d = (s \<le> d \<and> d \<le> e))
   \<and> isBetween (Some s, None) (Some h) d = (min s h \<le> d \<and> d \<le> max s h)
   \<and> \<not> isBetween (Some s, None) None d
   \<and> \<not> isBetween (None, en) hover d
   \<and> (isSameDay d s \<longrightarrow> \<not> isRange (Some s, en) hover d)
   \<and> (isSameDay d e \<longrightarrow> \<not> isRange (st, Some e) hover d)
   \<and> (Day s < Day d \<and> Day d < Day e \<longrightarrow> isRange (Some s, Some e) hover d)
   \<and> (Day s < Day d \<and> Day d < Day h \<longrightarrow> isRange (Some s, None) (Some h) d)
   \<and> (Day h < Day d \<and> Day d < Day s \<longrightarrow> isRange (Some s, None) (Some h) d)"
proof -
  have 1: "isRange draft hover d = (isBetween draft hover d \<and> \<not> isStart draft d \<and> \<not> isEnd draft d)"
    by (simp add: isRange_def)
  have 2: "isBetween draft hover d =
        (\<exists>lo hi. previewInterval draft hover = Some (lo, hi) \<and> min lo hi \<le> d \<and> d \<le> max lo hi)"
  proof (cases "previewInterval draft hover")
    case None
    then show ?thesis by (simp add: isBetween_def)
  next
    case (Some iv)
    then show ?thesis
      using previewInterval_fst [OF Some]
      by (cases iv) (simp add: isBetween_def isWithinInterval_def Let_def)
  qed
  have 3: "s \<le> e \<longrightarrow> isBetween (Some s, Some e) hover d = (s \<le> d \<and> d \<le> e)"
    by (auto simp: isBetween_def previewInterval_def isWithinInterval_def Let_def isBefore_def
        isSameDay_def)
  have 4: "isBetween (Some s, None) (Some h) d = (min s h \<le> d \<and> d \<le> max s h)"
    by (auto simp: isBetween_def previewInterval_def isWithinInterval_def Let_def isBefore_def)
  have 5: "\<not> isBetween (Some s, None) None d"
    by (simp add: isBetween_def previewInterval_def)
  have 6: "\<not> isBetween (None, en) hover d"
    by (simp add: isBetween_def previewInterval_def)
  have 7: "isSameDay d s \<longrightarrow> \<not> isRange (Some s, en) hover d"
    by (simp add: isRange_def isStart_def)
  have 8: "isSameDay d e \<longrightarrow> \<not> isRange (st, Some e) hover d"
    by (simp add: isRange_def isEnd_def)
  have 9: "Day s < Day d \<and> Day d < Day e \<longrightarrow> isRange (Some s, Some e) hover d"
  proof
    assume a: "Day s < Day d \<and> Day d < Day e"
    then have lt: "s < d" "d < e" by (simp_all add: Day_less)
    then have "isBetween (Some s, Some e) hover d" using 3 by simp
    moreover have "\<not> isStart (Some s, Some e) d" "\<not> isEnd (Some s, Some e) d"
      using a by (simp_all add: isStart_def isEnd_def isSameDay_Day)
    ultimately show "isRange (Some s, Some e) hover d" by (simp add: isRange_def)
  qed
  have 10: "Day s < Day d \<and> Day d < Day h \<longrightarrow> isRange (Some s, None) (Some h) d"
  proof
    assume a: "Day s < Day d \<and> Day d < Day h"
    then have lt: "s < d" "d < h" by (simp_all add: Day_less)
    then have "isBetween (Some s, None) (Some h) d" using 4 by simp
    moreover have "\<not> isStart (Some s, None) d" "\<not> isEnd (Some s, None) d"
      using a by (simp_all add: isStart_def isEnd_def isSameDay_Day)
    ultimately show "isRange (Some s, None) (Some h) d" by (simp add: isRange_def)
  qed
  have 11: "Day h < Day d \<and> Day d < Day s \<longrightarrow> isRange (Some s, None) (Some h) d"
  proof
    assume a: "Day h < Day d \<and> Day d < Day s"
    then have lt: "h < d" "d < s" by (simp_all add: Day_less)
    then have "isBetween (Some s, None) (Some h) d" using 4 by simp
    moreover have "\<not> isStart (Some s, None) d" "\<not> isEnd (Some s, None) d"
      using a by (simp_all add: isStart_def isEnd_def isSameDay_Day)
    ultimately show "isRange (Some s, None) (Some h) d" by (simp add: isRange_def)
  qed
  show ?thesis using 1 2 3 4 5 6 7 8 9 10 11 by blast
qed

theorem range_middle_witness:
  "(1704412800000::int) \<le> 1704844800000
   \<and> isBetween (Some 1704412800000, Some 1704844800000) None 1704844800000
   \<and> isSameDay 1704412800000 1704412800000
   \<and> \<not> isRange (Some 1704412800000, Some 1704844800000) None 1704412800000
   \<and> isSameDay 1704844800000 1704844800000
   \<and> \<not> isRange (Some 1704412800000, Some 1704844800000) None 1704844800000
   \<and> Day 1704412800000 < Day 1704585600000 \<and> Day 1704585600000 < Day 1704844800000
   \<and> isRange (Some 1704412800000, Some 1704844800000) None 1704585600000
   \<and> isRange (Some 1704412800000, None) (Some 1704844800000) 1704585600000
   \<and> isRange (Some 1704844800000, None) (Some 1704412800000) 1704585600000"
proof -
  have h0: "(1704412800000::int) \<le> 1704844800000" by simp
  have h1: "isSameDay 1704412800000 1704412800000"
    and h2: "isSameDay 1704844800000 1704844800000"
    by (simp_all add: isSameDay_def)
  have h3: "Day 1704412800000 < Day 1704585600000 \<and> Day 1704585600000 < Day 1704844800000"
    by (simp add: Day_def msPerDay_def)
  note b = range_middle_classification [where d = 1704844800000 and s = 1704412800000
        and e = 1704844800000 and hover = None,
        THEN conjunct2, THEN conjunct2, THEN conjunct1, rule_format]
  note c = range_middle_classification [where d = 1704412800000 and s = 1704412800000
        and en = "Some 1704844800000" and hover = None,
        THEN conjunct2, THEN conjunct2, THEN conjunct2, THEN conjunct2, THEN conjunct2,
        THEN conjunct2, THEN conjunct1, rule_format]
  note d = range_middle_classification [where d = 1704844800000 and e = 1704844800000
        and st = "Some 1704412800000" and hover = None,
        THEN conjunct2, THEN conjunct2, THEN conjunct2, THEN conjunct2, THEN conjunct2,
        THEN conjunct2, THEN conjunct2, THEN conjunct1, rule_format]
  note e = range_middle_classification [where d = 1704585600000 and s = 1704412800000
        and e = 1704844800000 and hover = None,
        THEN conjunct2, THEN conjunct2, THEN conjunct2, THEN conjunct2, THEN conjunct2,
        THEN conjunct2, THEN conjunct2, THEN conjunct2, THEN conjunct1, rule_format]
  note f = range_middle_classification [where d = 1704585600000 and s = 1704412800000
        and h = 1704844800000,
        THEN conjunct2, THEN conjunct2, THEN conjunct2, THEN conjunct2, THEN conjunct2,
        THEN conjunct2, THEN conjunct2, THEN conjunct2, THEN conjunct2, THEN conjunct1,
        rule_format]
  note g = range_middle_classification [where d = 1704585600000 and s = 1704844800000
        and h = 1704412800000,
        THEN conjunct2, THEN conjunct2, THEN conjunct2, THEN conjunct2, THEN conjunct2,
        THEN conjunct2, THEN conjunct2, THEN conjunct2, THEN conjunct2, THEN conjunct2,
        rule_format]
  have 0: "isBetween (Some 1704412800000, Some 1704844800000) None 1704844800000"
    using b [OF h0] by simp
  have 1: "\<not> isRange (Some 1704412800000, Some 1704844800000) None 1704412800000"
    using c [OF h1] .
  have 2: "\<not> isRange (Some 1704412800000, Some 1704844800000) None 1704844800000"
    using d [OF h2] .
  have 3: "isRange (Some 1704412800000, Some 1704844800000) None 1704585600000"
    using e [OF h3] .
  have 4: "isRange (Some 1704412800000, None) (Some 1704844800000) 1704585600000"
    using f [OF h3] .
  have 5: "isRange (Some 1704844800000, None) (Some 1704412800000) 1704585600000"
    using g h3 by simp
  show ?thesis
    using h0 h1 h2 h3 0 1 2 3 4 5 by (intro conjI) (simp_all only: simp_thms)
qed

text \<open>
  Claim C6, as the specification states it: after the component accepts a value whose two
  endpoints are present and inverted, its range state is ordered. The state is not: the
  value is stored as it was passed.
\<close>

theorem inverted_value_kept_counterexample:
  "\<not> ordered (draftRange (valueChanged (Some 1704844800000, Some 1704412800000)
                              (mount (None, None) 0)))"
  by (simp add: valueChanged_def mount_def ordered_def)

text \<open>
  Claim C6, amended. A value whose endpoints are both present, the start on a later
  calendar day than the end, is not rejected: the range state holds the value as it was
  passed, at mounting and at a later change of the value, nothing is passed to
  \<^verbatim>\<open>onChange\<close>, and the interval that \<^verbatim>\<open>renderGrid\<close> highlights is the swapped pair
  \<open>(end, start)\<close>, whose start is before its end.
\<close>

theorem inverted_value_swapped_for_display:
  assumes "e < s" and "\<not> isSameDay s e"
  shows "draftRange (mount (Some s, Some e) now) = (Some s, Some e)
       \<and> draftRange (valueChanged (Some s, Some e) st) = (Some s, Some e)
       \<and> onChange_calls (valueChanged (Some s, Some e) st) = onChange_calls st
       \<and> previewInterval (Some s, Some e) hover = Some (e, s)"
  using assms by (simp add: mount_def valueChanged_def previewInterval_def isBefore_def)

theorem inverted_value_witness:
  "(1704412800000::int) < 1704844800000
   \<and> \<not> isSameDay 1704844800000 1704412800000
   \<and> draftRange (valueChanged (Some 1704844800000, Some 1704412800000) (mount (None, None) 0))
       = (Some 1704844800000, Some 1704412800000)
   \<and> previewInterval (Some 1704844800000, Some 1704412800000) None
       = Some (1704412800000, 1704844800000)"
proof -
  have h1: "(1704412800000::int) < 1704844800000" by simp
  have h2: "\<not> isSameDay 1704844800000 1704412800000"
    by (simp add: isSameDay_Day Day_def msPerDay_def)
  show ?thesis
    using h1 h2 inverted_value_swapped_for_display [OF h1 h2, of 0 "mount (None, None) 0" None]
    by simp
qed

text \<open>
  Claim C7, at the input where the single-date picker departs from it. The Today footer
  passes the current instant, 22:40 on 3 February 2024 here, to \<^verbatim>\<open>onChange\<close>. With
  that value the cell of 3 February is in the grid and is on the same calendar day as the
  value, yet \<open>isSelected\<close>, which compares instants, is false for it. The range picker
  marks the same cell as the start of the range \<open>(value, value)\<close>.
\<close>

theorem selected_cell_compared_by_instant:
  "todayClick 1707000000000 = Some 1707000000000
   \<and> monthMatrix (fixedZone 0) 1707000000000 = Some (days_from 1706400000000 35)
   \<and> 1706918400000 \<in> set (days_from 1706400000000 35)
   \<and> isSameDay 1706918400000 1707000000000
   \<and> \<not> isSelected (Some 1707000000000) 1706918400000
   \<and> isToday 1707000000000 1706918400000
   \<and> isStart (Some 1707000000000, Some 1707000000000) 1706918400000"
proof -
  have 1: "monthMatrix (fixedZone 0) 1707000000000 = Some (days_from 1706400000000 35)"
    by code_simp
  have 2: "1706918400000 \<in> set (days_from 1706400000000 35)" by code_simp
  have 3: "isSameDay 1706918400000 1707000000000"
    by (simp add: isSameDay_Day Day_def msPerDay_def)
  show ?thesis
    using 1 2 3 by (simp add: todayClick_def isSelected_def isEqual_def isToday_def isStart_def)
qed

text \<open>
  Claim C8. While the panel is open, a mouse press outside the component closes the panel,
  puts the draft range back to the value the parent passed (a pending start is dropped),
  clears the hovered day, and passes nothing to \<^verbatim>\<open>onChange\<close>.
\<close>

theorem outside_click_cancels:
  assumes "open_st st"
  shows "\<not> open_st (handleOutsideClick True st)
       \<and> draftRange (handleOutsideClick True st) = value_prop st
       \<and> hoverDate (handleOutsideClick True st) = None
       \<and> onChange_calls (handleOutsideClick True st) = onChange_calls st
       \<and> value_prop (handleOutsideClick True st) = value_prop st"
  using assms by (simp add: handleOutsideClick_def)

theorem outside_click_witness:
  "open_st (step (toggle (mount (Some 1704412800000, Some 1704844800000) 0)) (PickDay 1705276800000))
   \<and> draftRange (step (toggle (mount (Some 1704412800000, Some 1704844800000) 0))
        (PickDay 1705276800000)) = (Some 1705276800000, None)
   \<and> draftRange (handleOutsideClick True
        (step (toggle (mount (Some 1704412800000, Some 1704844800000) 0)) (PickDay 1705276800000)))
       = (Some 1704412800000, Some 1704844800000)
   \<and> \<not> open_st (handleOutsideClick True
        (step (toggle (mount (Some 1704412800000, Some 1704844800000) 0)) (PickDay 1705276800000)))"
proof -
  have h: "open_st (step (toggle (mount (Some 1704412800000, Some 1704844800000) 0))
             (PickDay 1705276800000))"
    by (simp add: toggle_def mount_def openPanel_def pickDay_def)
  show ?thesis
    using h outside_click_cancels [OF h]
    by (simp add: toggle_def mount_def openPanel_def pickDay_def)
qed



text \<open>
  Claim C10. Let the value passed at mounting and every value passed later have a start
  whenever it has an end. Then after any sequence of events (day clicks, the Today
  footer, the clear button, presses outside, changes of the value, clicks on the input,
  the pointer entering and leaving cells) the draft range has a start whenever it has an
  end.
\<close>

theorem end_only_with_start:
  assumes "startWhenEnd v0"
    and "\<forall>v. ValueChanged v \<in> set evs \<longrightarrow> startWhenEnd v"
  shows "startWhenEnd (draftRange (run (mount v0 now) evs))"
  using run_startWhenEnd [OF assms(2), of "mount v0 now"] assms(1) by (simp add: mount_def)

theorem end_only_with_start_witness:
  "startWhenEnd (None, None)
   \<and> startWhenEnd (Some 1704412800000, Some 1704844800000)
   \<and> startWhenEnd (draftRange (run (mount (None, None) 0)
        [Toggle, PickDay 1704844800000, OutsideClick,
         ValueChanged (Some 1704412800000, Some 1704844800000),
         Toggle, ApplyToday 1707000000000, Clear]))"
proof -
  have h1: "startWhenEnd (None, None)"
    and h3: "startWhenEnd (Some 1704412800000, Some 1704844800000)"
    by (simp_all add: startWhenEnd_def)
  have h2: "\<forall>v. ValueChanged v \<in> set [Toggle, PickDay 1704844800000, OutsideClick,
         ValueChanged (Some 1704412800000, Some 1704844800000),
         Toggle, ApplyToday 1707000000000, Clear] \<longrightarrow> startWhenEnd v"
    using h3 by simp
  show ?thesis
    using h1 h3 end_only_with_start [OF h1 h2] by blast
qed

end
